theory Spec2Isabelle
  imports Complex_Main
begin

section \<open>Data model\<close>

text \<open>
  The module works on pandas objects. A Series is an ordered list of labelled values, a
  DataFrame an index together with its named columns (every column as long as the
  index). The boolean records whether the index is a \<^verbatim>\<open>DatetimeIndex\<close>. Anything that
  is neither (a plain number, which is also what \<^verbatim>\<open>squeeze\<close> makes of a single cell) is
  a \<open>Scalar\<close>. Values are real numbers: rounding and NaN are outside this model.
\<close>

datatype error =
    TypeError | ValueError | IndexError | AttributeError | IndexingError
  | NotImplementedError | ZeroDivisionError

datatype label = IntLabel int | StrLabel string

datatype data =
    Series bool "(label \<times> real) list"
  | DataFrame bool "label list" "(label \<times> real list) list"
  | Scalar real

datatype highlight = Single int | Many "int list"

definition HIGHLIGHT_COLOR :: string where
  "HIGHLIGHT_COLOR = ''purple''"

text \<open>\<^verbatim>\<open>len(data)\<close>: the number of rows; a number has no length.\<close>

fun len :: "data \<Rightarrow> error + nat" where
  "len (Series dt rows) = Inr (length rows)"
| "len (DataFrame dt idx cols) = Inr (length idx)"
| "len (Scalar v) = Inl TypeError"

text \<open>\<^verbatim>\<open>xs[i] = v\<close> on a Python list: a negative index counts from the end, an index
  outside \<open>-len \<dots> len - 1\<close> raises.\<close>

definition setitem :: "'a list \<Rightarrow> int \<Rightarrow> 'a \<Rightarrow> error + 'a list" where
  "setitem xs i v =
     (if 0 \<le> i \<and> i < int (length xs) then Inr (xs[nat i := v])
      else if - int (length xs) \<le> i \<and> i < 0 then Inr (xs[nat (int (length xs) + i) := v])
      else Inl IndexError)"

section \<open>define_colors\<close>

text \<open>The loop \<^verbatim>\<open>for h in highlight\<close>: a negative \<open>h\<close> is moved by \<^verbatim>\<open>len(data)\<close>, then
  written with the list's own indexing. An \<open>IndexError\<close> is not caught by the
  \<^verbatim>\<open>except TypeError\<close> and leaves the function.\<close>

fun highlight_loop :: "nat \<Rightarrow> string list \<Rightarrow> int list \<Rightarrow> error + string list" where
  "highlight_loop n color [] = Inr color"
| "highlight_loop n color (h # hs) =
     (case setitem color (if h < 0 then int n + h else h) HIGHLIGHT_COLOR of
        Inl e \<Rightarrow> Inl e
      | Inr color' \<Rightarrow> highlight_loop n color' hs)"

definition define_colors :: "highlight \<Rightarrow> data \<Rightarrow> string \<Rightarrow> error + string list" where
  "define_colors hl d plottype =
     (case d of
        Scalar v \<Rightarrow> Inl TypeError
      | _ \<Rightarrow>
        (case len d of
           Inl e \<Rightarrow> Inl e
         | Inr n \<Rightarrow>
           (let color =
                  (case d of
                     DataFrame dt idx cols \<Rightarrow>
                       if plottype = ''scatter'' then replicate n ''lightgray''
                       else replicate (length cols) ''lightgray''
                   | _ \<Rightarrow> replicate n ''lightgray'')
            in case hl of
                 Many hs \<Rightarrow> highlight_loop n color hs
               | Single h \<Rightarrow> setitem color h HIGHLIGHT_COLOR)))"

section \<open>is_percentage_series and pick_plottype\<close>

text \<open>\<^verbatim>\<open>math.isclose(a, b)\<close> with its defaults: relative tolerance \<open>1e-09\<close>, absolute
  tolerance \<open>0\<close>.\<close>

definition rel_tol :: real where
  "rel_tol = 1 / 10 ^ 9"

definition isclose :: "real \<Rightarrow> real \<Rightarrow> bool" where
  "isclose a b = (a = b \<or> \<bar>a - b\<bar> \<le> max (rel_tol * max \<bar>a\<bar> \<bar>b\<bar>) 0)"

definition between :: "real \<Rightarrow> real \<Rightarrow> real \<Rightarrow> bool" where
  "between lo hi v = (lo \<le> v \<and> v \<le> hi)"

definition is_percentage_series :: "real list \<Rightarrow> bool" where
  "is_percentage_series vs = (list_all (between 0 1) vs \<and> isclose (sum_list vs) 1)"

definition pick_plottype :: "data \<Rightarrow> error + string" where
  "pick_plottype d =
     (case d of
        Scalar v \<Rightarrow> Inl AttributeError
      | Series dt rows \<Rightarrow>
          if dt then (if length rows < 10 then Inr ''bar_timeseries'' else Inr ''line_timeseries'')
          else if is_percentage_series (map snd rows) then Inr ''waterfall''
          else Inr ''bar''
      | DataFrame dt idx cols \<Rightarrow>
          if dt then (if length idx < 10 then Inr ''bar_timeseries'' else Inr ''line_timeseries'')
          else if list_all (\<lambda>c. is_percentage_series (snd c)) cols
               then Inr ''composition_comparison''
          else Inr ''scatter'')"

section \<open>plot_waterfall\<close>

text \<open>\<^verbatim>\<open>cumsum\<close>, \<^verbatim>\<open>shift(1)\<close> (the first slot becomes missing, the last value drops off)
  and \<^verbatim>\<open>fillna\<close>, on one column of values.\<close>

fun cumsum_from :: "real \<Rightarrow> real list \<Rightarrow> real list" where
  "cumsum_from acc [] = []"
| "cumsum_from acc (v # vs) = (acc + v) # cumsum_from (acc + v) vs"

definition cumsum :: "real list \<Rightarrow> real list" where
  "cumsum vs = cumsum_from 0 vs"

definition shift :: "real list \<Rightarrow> real option list" where
  "shift vs = (if vs = [] then [] else None # map Some (butlast vs))"

definition fillna :: "real \<Rightarrow> real option list \<Rightarrow> real list" where
  "fillna d vs = map (\<lambda>v. case v of None \<Rightarrow> d | Some x \<Rightarrow> x) vs"

text \<open>\<^verbatim>\<open>obj.loc[k] = v\<close>: every row labelled \<open>k\<close> is overwritten; only when there is
  none, a row is appended.\<close>

definition loc_set :: "label \<Rightarrow> 'a \<Rightarrow> (label \<times> 'a) list \<Rightarrow> (label \<times> 'a) list" where
  "loc_set k v rows =
     (if k \<in> set (map fst rows)
      then map (\<lambda>r. if fst r = k then (k, v) else r) rows
      else rows @ [(k, v)])"

definition loc_set_index :: "label \<Rightarrow> label list \<Rightarrow> label list" where
  "loc_set_index k idx = (if k \<in> set idx then idx else idx @ [k])"

definition loc_set_column :: "label \<Rightarrow> real \<Rightarrow> label list \<Rightarrow> real list \<Rightarrow> real list" where
  "loc_set_column k v idx vs =
     (if k \<in> set idx
      then map (\<lambda>(l, x). if l = k then v else x) (zip idx vs)
      else vs @ [v])"

text \<open>A string label appended to a \<^verbatim>\<open>DatetimeIndex\<close> leaves an index of plain objects.\<close>

definition loc_set_data :: "label \<Rightarrow> (real list \<Rightarrow> real) \<Rightarrow> data \<Rightarrow> data" where
  "loc_set_data k f d =
     (case d of
        Series dt rows \<Rightarrow>
          Series (dt \<and> k \<in> set (map fst rows)) (loc_set k (f (map snd rows)) rows)
      | DataFrame dt idx cols \<Rightarrow>
          DataFrame (dt \<and> k \<in> set idx) (loc_set_index k idx)
            (map (\<lambda>c. (fst c, loc_set_column k (f (snd c)) idx (snd c))) cols)
      | Scalar v \<Rightarrow> Scalar v)"

definition blank_of :: "data \<Rightarrow> data" where
  "blank_of d =
     (case d of
        Series dt rows \<Rightarrow>
          Series dt (zip (map fst rows) (fillna 0 (shift (cumsum (map snd rows)))))
      | DataFrame dt idx cols \<Rightarrow>
          DataFrame dt idx (map (\<lambda>c. (fst c, fillna 0 (shift (cumsum (snd c))))) cols)
      | Scalar v \<Rightarrow> Scalar v)"

text \<open>\<^verbatim>\<open>data[::-1]\<close>: the rows in reverse order.\<close>

definition reversed :: "data \<Rightarrow> data" where
  "reversed d =
     (case d of
        Series dt rows \<Rightarrow> Series dt (rev rows)
      | DataFrame dt idx cols \<Rightarrow> DataFrame dt (rev idx) (map (\<lambda>c. (fst c, rev (snd c))) cols)
      | Scalar v \<Rightarrow> Scalar v)"

text \<open>
  The result of \<^verbatim>\<open>plot_waterfall\<close>, which is written for a Series or a DataFrame: a
  number fails at \<^verbatim>\<open>len\<close> when no colors are given and at \<^verbatim>\<open>cumsum().shift\<close>
  otherwise. \<open>wf_arg\<close> is the argument object after the call:
  line 82 writes the total into the object it was given. \<open>wf_data\<close>, \<open>wf_blank\<close> and
  \<open>wf_color\<close> are what is handed to the horizontal stacked bar plot, \<open>wf_data\<close> and
  \<open>wf_blank\<close> are also returned.
\<close>

record waterfall =
  wf_arg :: data
  wf_data :: data
  wf_blank :: data
  wf_color :: "string list"

definition plot_waterfall :: "data \<Rightarrow> string list option \<Rightarrow> bool \<Rightarrow> error + waterfall" where
  "plot_waterfall d color buildup =
     (case len d of
        Inl e \<Rightarrow> Inl (if color = None then e else AttributeError)
      | Inr n \<Rightarrow>
        (let color0 = (case color of None \<Rightarrow> replicate n ''lightgray'' | Some c \<Rightarrow> c);
             blank = blank_of d;
             d1 = loc_set_data (StrLabel ''total'') sum_list d;
             blank1 = loc_set_data (StrLabel ''total'') (\<lambda>vs. 0) blank;
             color1 = color0 @ [''gray'']
         in Inr \<lparr> wf_arg = d1,
                  wf_data = (if buildup then reversed d1 else d1),
                  wf_blank = (if buildup then reversed blank1 else blank1),
                  wf_color = (if buildup then rev color1 else color1) \<rparr>))"

section \<open>plot_values_above_bar\<close>

text \<open>
  Iterating a Series yields its values, iterating a DataFrame its column labels, and a
  number cannot be iterated. A label that is a string cannot take part in the addition
  of line 50.
\<close>

datatype item = NumItem real | LabItem label

fun iterate :: "data \<Rightarrow> error + item list" where
  "iterate (Series dt rows) = Inr (map (\<lambda>r. NumItem (snd r)) rows)"
| "iterate (DataFrame dt idx cols) = Inr (map (\<lambda>c. LabItem (fst c)) cols)"
| "iterate (Scalar v) = Inl TypeError"

fun add_float :: "item \<Rightarrow> real \<Rightarrow> error + real" where
  "add_float (NumItem r) x = Inr (r + x)"
| "add_float (LabItem (IntLabel n)) x = Inr (real_of_int n + x)"
| "add_float (LabItem (StrLabel s)) x = Inl TypeError"

text \<open>The axes of the rendering engine, as far as this module reads them.\<close>

record axes =
  xlim :: "real \<times> real"
  ylim :: "real \<times> real"

text \<open>One call of \<^verbatim>\<open>ax.text\<close>, with the label that line 56 has formatted.\<close>

record text_call =
  text_x :: real
  text_y :: real
  text_label :: string
  text_color :: string
  text_va :: string
  text_ha :: string

text \<open>
  Line 56, \<^verbatim>\<open>'{:{prec}}'.format(dv, prec=strfmt)\<close>, is Python's own formatting: it gives the
  text of a value under a format string, or raises when the format string is not valid
  or does not fit the value. It is a parameter of the model.
\<close>

type_synonym formatter = "string \<Rightarrow> item \<Rightarrow> error + string"

text \<open>Line 52: the category coordinate of slot \<open>i\<close>, moved when the bars are grouped.\<close>

definition slot_coordinate :: "nat \<Rightarrow> (int \<times> int) option \<Rightarrow> error + real" where
  "slot_coordinate i bars =
     (case bars of
        None \<Rightarrow> Inr (real i)
      | Some (bar_nr, nr_bars) \<Rightarrow>
          if nr_bars + 2 = 0 then Inl ZeroDivisionError
          else Inr (real i + (- 0.5 + 1 / real_of_int (nr_bars + 2) * real_of_int (bar_nr + 1))))"

text \<open>The loop of lines 49 to 57. Each step can raise at the addition, at the division
  and at the formatting, in this order, before its label is drawn.\<close>

fun label_loop ::
  "formatter \<Rightarrow> real \<Rightarrow> (int \<times> int) option \<Rightarrow> string \<Rightarrow> string \<Rightarrow> string \<Rightarrow> string \<Rightarrow>
   string \<Rightarrow> nat \<Rightarrow> (item \<times> item) list \<Rightarrow> error + text_call list" where
  "label_loop format plotsize bars orient strfmt textcolor va ha i [] = Inr []"
| "label_loop format plotsize bars orient strfmt textcolor va ha i ((v, dv) # rest) =
     (case add_float v (0.025 * plotsize) of
        Inl e \<Rightarrow> Inl e
      | Inr v' \<Rightarrow>
        (case slot_coordinate i bars of
           Inl e \<Rightarrow> Inl e
         | Inr i' \<Rightarrow>
           (case format strfmt dv of
              Inl e \<Rightarrow> Inl e
            | Inr label \<Rightarrow>
              (case label_loop format plotsize bars orient strfmt textcolor va ha (Suc i) rest of
                 Inl e \<Rightarrow> Inl e
               | Inr ts \<Rightarrow>
                   Inr (\<lparr> text_x = (if orient = ''v'' then v' else i'),
                           text_y = (if orient = ''v'' then i' else v'),
                           text_label = label, text_color = textcolor,
                           text_va = va, text_ha = ha \<rparr> # ts)))))"

definition plot_values_above_bar ::
  "formatter \<Rightarrow> data \<Rightarrow> data option \<Rightarrow> axes \<Rightarrow> string \<Rightarrow> string \<Rightarrow> string \<Rightarrow> int option \<Rightarrow>
   int option \<Rightarrow> error + text_call list" where
  "plot_values_above_bar format d display_values ax strfmt orient textcolor bar_nr nr_bars =
     (if (bar_nr = None) \<noteq> (nr_bars = None) then Inl ValueError
      else
        let dvs = (case display_values of None \<Rightarrow> d | Some x \<Rightarrow> x);
            bars = (case nr_bars of None \<Rightarrow> None | Some n \<Rightarrow> Some (the bar_nr, n))
        in if orient \<noteq> ''v'' \<and> orient \<noteq> ''h'' then Inl ValueError
           else
             let lim = (if orient = ''v'' then xlim ax else ylim ax);
                 va = (if orient = ''v'' then ''center'' else ''bottom'');
                 ha = (if orient = ''v'' then ''left'' else ''center'');
                 plotsize = snd lim - fst lim
             in case iterate d of
                  Inl e \<Rightarrow> Inl e
                | Inr vs \<Rightarrow>
                  (case iterate dvs of
                     Inl e \<Rightarrow> Inl e
                   | Inr ds \<Rightarrow>
                       label_loop format plotsize bars orient strfmt textcolor va ha 0
                         (zip vs ds)))"

section \<open>micompanyify\<close>

text \<open>
  The name \<^verbatim>\<open>data\<close> inside \<^verbatim>\<open>micompanyify\<close> is bound either to the caller's own object
  or to an object made during the call. The caller's object is the state that is passed
  along; only \<^verbatim>\<open>plot_waterfall\<close> writes to an object.

  \<^verbatim>\<open>squeeze\<close> makes a number of a single cell and a Series of a single column or a
  single row. When there is nothing to squeeze, it hands back the object it was called
  on or a new one, depending on the version of pandas; the mode says which.
\<close>

datatype squeeze_mode = SameObject | NewObject

datatype binding = Caller | Local data

definition deref :: "data \<Rightarrow> binding \<Rightarrow> data" where
  "deref inp b = (case b of Caller \<Rightarrow> inp | Local d \<Rightarrow> d)"

definition write_through :: "binding \<Rightarrow> data \<Rightarrow> data \<Rightarrow> data" where
  "write_through b new inp = (case b of Caller \<Rightarrow> new | Local d \<Rightarrow> inp)"

definition squeeze :: "squeeze_mode \<Rightarrow> data \<Rightarrow> binding" where
  "squeeze mode d =
     (let kept = (if mode = SameObject then Caller else Local d)
      in case d of
           Series dt rows \<Rightarrow>
             if length rows = 1 then Local (Scalar (snd (hd rows))) else kept
         | DataFrame dt idx cols \<Rightarrow>
             if length idx = 1 \<and> length cols = 1 then Local (Scalar (hd (snd (hd cols))))
             else if length cols = 1 then Local (Series dt (zip idx (snd (hd cols))))
             else if length idx = 1 then Local (Series False (map (\<lambda>c. (fst c, hd (snd c))) cols))
             else kept
         | Scalar v \<Rightarrow> kept)"

text \<open>\<^verbatim>\<open>sort_values\<close>: descending order is the ascending order of the reversed rows,
  reversed. Rows of equal value keep their order here; pandas' default sort leaves
  their order open.\<close>

definition sort_values :: "bool \<Rightarrow> (label \<times> real) list \<Rightarrow> (label \<times> real) list" where
  "sort_values ascending rows =
     (if ascending then sort_key snd rows else rev (sort_key snd (rev rows)))"

definition is_series :: "data \<Rightarrow> bool" where
  "is_series d = (case d of Series dt rows \<Rightarrow> True | _ \<Rightarrow> False)"

definition all_percentages :: "data \<Rightarrow> bool" where
  "all_percentages d =
     (case d of
        DataFrame dt idx cols \<Rightarrow> list_all (\<lambda>c. is_percentage_series (snd c)) cols
      | Series dt rows \<Rightarrow> is_percentage_series (map snd rows)
      | Scalar v \<Rightarrow> False)"

definition unsorted_kinds :: "string list" where
  "unsorted_kinds =
     [''scatter'', ''piechart'', ''composition_comparison'', ''bar_timeseries'', ''line_timeseries'']"

text \<open>Lines 186 to 210: everything up to the sort.\<close>

record prepared =
  p_binding :: binding
  p_data :: data
  p_plottype :: string
  p_orient :: string
  p_strfmt :: string
  p_color :: "string list"

definition prepare ::
  "squeeze_mode \<Rightarrow> data \<Rightarrow> highlight \<Rightarrow> string option \<Rightarrow> bool option \<Rightarrow> string option \<Rightarrow>
   error + prepared" where
  "prepare mode inp hl plottype ascending strfmt =
     (case inp of
        Scalar v \<Rightarrow> Inl TypeError
      | _ \<Rightarrow>
        (let b = squeeze mode inp; d = deref inp b
         in case (case plottype of None \<Rightarrow> pick_plottype d | Some p \<Rightarrow> Inr p) of
              Inl e \<Rightarrow> Inl e
            | Inr p \<Rightarrow>
              (let orient = (if p \<in> set [''bar_timeseries'', ''line_timeseries''] then ''h'' else ''v'');
                   fmt = (case strfmt of
                            None \<Rightarrow> if all_percentages d then ''.1%'' else ''.2f''
                          | Some f \<Rightarrow> f)
               in case define_colors hl d p of
                    Inl e \<Rightarrow> Inl e
                  | Inr color \<Rightarrow>
                    (let asc = (if p \<in> set unsorted_kinds \<or> \<not> is_series d then None
                                else ascending);
                         sorted = (case (asc, d) of
                                     (Some a, Series dt rows) \<Rightarrow>
                                       Local (Series dt (sort_values a rows))
                                   | _ \<Rightarrow> b)
                     in Inr \<lparr> p_binding = sorted, p_data = deref inp sorted, p_plottype = p,
                              p_orient = orient, p_strfmt = fmt, p_color = color \<rparr>))))"

text \<open>What the rendering engine is asked to draw: \<^verbatim>\<open>data.plot(kind, stacked, left,
  color)\<close> or \<^verbatim>\<open>sns.scatterplot(x, y, size, color)\<close>.\<close>

datatype plot_call =
    Plot string data bool "data option" "string list"
  | Scatterplot data data "data option" string

text \<open>
  What the module calls and does not define: \<open>axes_after\<close> gives the axes of the rendering
  engine once a plot has been drawn, \<open>py_format\<close> is the formatting of line 56.
\<close>

record runtime =
  axes_after :: "plot_call \<Rightarrow> axes"
  py_format :: formatter

record outcome =
  o_plot :: plot_call
  o_texts :: "text_call list"
  o_xticks_cleared :: bool
  o_yticks_cleared :: bool

text \<open>\<^verbatim>\<open>data[col]\<close>: one column as a Series, or all the columns of that name.\<close>

definition getitem_column :: "data \<Rightarrow> label \<Rightarrow> data" where
  "getitem_column d c =
     (case d of
        DataFrame dt idx cols \<Rightarrow>
          (case filter (\<lambda>x. fst x = c) cols of
             [x] \<Rightarrow> Series dt (zip idx (snd x))
           | xs \<Rightarrow> DataFrame dt idx xs)
      | _ \<Rightarrow> d)"

fun bars_loop ::
  "formatter \<Rightarrow> data \<Rightarrow> axes \<Rightarrow> string \<Rightarrow> string \<Rightarrow> nat \<Rightarrow> nat \<Rightarrow> label list \<Rightarrow>
   error + text_call list" where
  "bars_loop format d ax strfmt orient n i [] = Inr []"
| "bars_loop format d ax strfmt orient n i (c # cs) =
     (case plot_values_above_bar format (getitem_column d c) None ax strfmt orient ''black''
             (Some (int i)) (Some (int n)) of
        Inl e \<Rightarrow> Inl e
      | Inr ts \<Rightarrow>
        (case bars_loop format d ax strfmt orient n (Suc i) cs of
           Inl e \<Rightarrow> Inl e
         | Inr ts' \<Rightarrow> Inr (ts @ ts')))"

text \<open>Lines 214 to 219 and 231 to 236.\<close>

definition value_labels ::
  "formatter \<Rightarrow> data \<Rightarrow> axes \<Rightarrow> string \<Rightarrow> string \<Rightarrow> error + text_call list" where
  "value_labels format d ax strfmt orient =
     (case d of
        Series dt rows \<Rightarrow>
          plot_values_above_bar format d None ax strfmt orient ''black'' None None
      | DataFrame dt idx cols \<Rightarrow>
          bars_loop format d ax strfmt orient (length cols) 0 (map fst cols)
      | Scalar v \<Rightarrow> Inl AttributeError)"

text \<open>\<^verbatim>\<open>data.iloc[:, j]\<close> and \<^verbatim>\<open>data.iloc[h, :]\<close>. A Series has one axis only.\<close>

definition iloc_column :: "data \<Rightarrow> nat \<Rightarrow> error + data" where
  "iloc_column d j =
     (case d of
        Series dt rows \<Rightarrow> Inl IndexingError
      | DataFrame dt idx cols \<Rightarrow>
          if j < length cols then Inr (Series dt (zip idx (snd (cols ! j)))) else Inl IndexError
      | Scalar v \<Rightarrow> Inl AttributeError)"

definition iloc_row :: "data \<Rightarrow> int \<Rightarrow> error + data" where
  "iloc_row d h =
     (case d of
        Series dt rows \<Rightarrow> Inl IndexingError
      | DataFrame dt idx cols \<Rightarrow>
          if 0 \<le> h \<and> h < int (length idx)
          then Inr (Series False (map (\<lambda>c. (fst c, snd c ! nat h)) cols))
          else if - int (length idx) \<le> h \<and> h < 0
          then Inr (Series False (map (\<lambda>c. (fst c, snd c ! nat (int (length idx) + h))) cols))
          else Inl IndexError
      | Scalar v \<Rightarrow> Inl AttributeError)"

text \<open>Arithmetic on two objects of the same index and columns goes value by value.\<close>

definition combine :: "(real \<Rightarrow> real \<Rightarrow> real) \<Rightarrow> data \<Rightarrow> data \<Rightarrow> data" where
  "combine f a b =
     (case (a, b) of
        (Series dt rows, Series dt' rows') \<Rightarrow>
          Series dt (map (\<lambda>(r, r'). (fst r, f (snd r) (snd r'))) (zip rows rows'))
      | (DataFrame dt idx cols, DataFrame dt' idx' cols') \<Rightarrow>
          DataFrame dt idx (map (\<lambda>(c, c'). (fst c, map (\<lambda>(x, y). f x y) (zip (snd c) (snd c'))))
                              (zip cols cols'))
      | _ \<Rightarrow> a)"

definition cumsum_data :: "data \<Rightarrow> data" where
  "cumsum_data d =
     (case d of
        Series dt rows \<Rightarrow> Series dt (zip (map fst rows) (cumsum (map snd rows)))
      | DataFrame dt idx cols \<Rightarrow> DataFrame dt idx (map (\<lambda>c. (fst c, cumsum (snd c))) cols)
      | Scalar v \<Rightarrow> Scalar v)"

definition transpose_data :: "data \<Rightarrow> data" where
  "transpose_data d =
     (case d of
        DataFrame dt idx cols \<Rightarrow>
          DataFrame False (map fst cols)
            (map (\<lambda>(i, l). (l, map (\<lambda>c. snd c ! i) cols)) (zip [0..<length idx] idx))
      | _ \<Rightarrow> d)"

text \<open>Lines 221 to 227: the waterfall kinds. The total that \<^verbatim>\<open>plot_waterfall\<close> writes
  reaches the caller's object when \<^verbatim>\<open>data\<close> is still bound to it.\<close>

definition render_waterfall ::
  "runtime \<Rightarrow> bool \<Rightarrow> data \<Rightarrow> prepared \<Rightarrow> data \<times> (error + plot_call \<times> text_call list)" where
  "render_waterfall env buildup inp p =
     (case plot_waterfall (p_data p) (Some (p_color p)) buildup of
        Inl e \<Rightarrow> (inp, Inl e)
      | Inr w \<Rightarrow>
        (let call = Plot ''barh'' (wf_data w) True (Some (wf_blank w)) (wf_color w)
         in (write_through (p_binding p) (wf_arg w) inp,
             case plot_values_above_bar (py_format env)
                    (combine (+) (wf_data w) (wf_blank w)) (Some (wf_data w))
                    (axes_after env call) (p_strfmt p) (p_orient p) ''black'' None None of
               Inl e \<Rightarrow> Inl e
             | Inr ts \<Rightarrow> Inr (call, ts))))"

text \<open>Lines 241 to 248.\<close>

definition render_scatter :: "data \<Rightarrow> error + plot_call \<times> text_call list" where
  "render_scatter d =
     (case iloc_column d 0 of
        Inl e \<Rightarrow> Inl e
      | Inr x \<Rightarrow>
        (case iloc_column d 1 of
           Inl e \<Rightarrow> Inl e
         | Inr y \<Rightarrow>
           (case iloc_column d 2 of
              Inl e \<Rightarrow> if e = IndexError then Inr (Scatterplot x y None ''grey'', []) else Inl e
            | Inr sz \<Rightarrow> Inr (Scatterplot x y (Some sz) ''grey'', []))))"

text \<open>Lines 249 to 258.\<close>

definition render_composition ::
  "runtime \<Rightarrow> highlight \<Rightarrow> prepared \<Rightarrow> error + plot_call \<times> text_call list" where
  "render_composition env hl p =
     (let d = p_data p;
          call = Plot ''barh'' (transpose_data d) True None (p_color p);
          location = combine (\<lambda>x y. (x + y) / 2) (blank_of d) (cumsum_data d)
      in case hl of
           Many hs \<Rightarrow> Inl TypeError
         | Single h \<Rightarrow>
           (case iloc_row location h of
              Inl e \<Rightarrow> Inl e
            | Inr positions \<Rightarrow>
              (case iloc_row d h of
                 Inl e \<Rightarrow> Inl e
               | Inr shown \<Rightarrow>
                 (case plot_values_above_bar (py_format env) positions (Some shown)
                         (axes_after env call) (p_strfmt p) (p_orient p) ''white'' None None of
                    Inl e \<Rightarrow> Inl e
                  | Inr ts \<Rightarrow> Inr (call, ts)))))"

text \<open>Lines 212 to 263: the dispatch on the kind. The labels of \<^verbatim>\<open>waterfall_buildup\<close>
  are drawn under the plotting backend that line 12 selects.\<close>

definition dispatch ::
  "runtime \<Rightarrow> highlight \<Rightarrow> data \<Rightarrow> prepared \<Rightarrow> data \<times> (error + plot_call \<times> text_call list)" where
  "dispatch env hl inp p =
     (let d = p_data p; k = p_plottype p
      in if k = ''bar'' then
           (let call = Plot ''barh'' d False None (p_color p)
            in (inp, case value_labels (py_format env) d (axes_after env call) (p_strfmt p)
                            (p_orient p) of
                       Inl e \<Rightarrow> Inl e | Inr ts \<Rightarrow> Inr (call, ts)))
         else if k = ''waterfall'' then render_waterfall env False inp p
         else if k = ''waterfall_buildup'' then render_waterfall env True inp p
         else if k = ''bar_timeseries'' then
           (let call = Plot ''bar'' d False None (p_color p)
            in (inp, case value_labels (py_format env) d (axes_after env call) (p_strfmt p)
                            (p_orient p) of
                       Inl e \<Rightarrow> Inl e | Inr ts \<Rightarrow> Inr (call, ts)))
         else if k = ''line_timeseries'' then
           (inp, Inr (Plot ''line'' d False None (p_color p), []))
         else if k = ''scatter'' then (inp, render_scatter d)
         else if k = ''composition_comparison'' then (inp, render_composition env hl p)
         else if k = ''piechart'' then (inp, Inl TypeError)
         else (inp, Inl NotImplementedError))"

text \<open>The whole call: the caller's object afterwards, and the error raised or the
  drawing made. Lines 264 to 268 clear the ticks of one axis.\<close>

definition micompanyify ::
  "squeeze_mode \<Rightarrow> runtime \<Rightarrow> data \<Rightarrow> highlight \<Rightarrow> string option \<Rightarrow> bool option \<Rightarrow>
   string option \<Rightarrow> data \<times> (error + outcome)" where
  "micompanyify mode env inp hl plottype ascending strfmt =
     (case prepare mode inp hl plottype ascending strfmt of
        Inl e \<Rightarrow> (inp, Inl e)
      | Inr p \<Rightarrow>
        (case dispatch env hl inp p of
           (inp', Inl e) \<Rightarrow> (inp', Inl e)
         | (inp', Inr (call, ts)) \<Rightarrow>
             (inp', Inr \<lparr> o_plot = call, o_texts = ts,
                          o_xticks_cleared = (p_orient p = ''v'' \<and> p_plottype p \<noteq> ''scatter''),
                          o_yticks_cleared = (p_orient p = ''h'' \<and>
                             p_plottype p \<notin> set [''line_timeseries'', ''scatter'']) \<rparr>)))"

section \<open>The specification's notions\<close>

text \<open>The offsets as the specification gives them: the offset of category \<open>i\<close> is the sum of
  the values before it.\<close>

definition baseline_offsets :: "real list \<Rightarrow> real list" where
  "baseline_offsets vs = map (\<lambda>i. sum_list (take i vs)) [0..<length vs]"

text \<open>The percentage test in the specification's words: every value in \<open>[0, 1]\<close> and the sum
  equal to 1 within the tolerance \<open>1e-9\<close>, which \<^verbatim>\<open>math.isclose\<close> takes relative to the
  larger of the two numbers compared.\<close>

definition percentage_test :: "real list \<Rightarrow> bool" where
  "percentage_test vs =
     ((\<forall>v \<in> set vs. 0 \<le> v \<and> v \<le> 1) \<and>
      \<bar>sum_list vs - 1\<bar> \<le> (1 / 10 ^ 9) * max \<bar>sum_list vs\<bar> 1)"

text \<open>The number of plotted items: categories for a series, columns for a table, and the
  rows again for a table drawn as scatter.\<close>

definition plotted_count :: "data \<Rightarrow> string \<Rightarrow> nat" where
  "plotted_count d plottype =
     (case d of
        Series dt rows \<Rightarrow> length rows
      | DataFrame dt idx cols \<Rightarrow> if plottype = ''scatter'' then length idx else length cols
      | Scalar v \<Rightarrow> 0)"

text \<open>An index that a sequence of length \<open>n\<close> accepts, and the position it names.\<close>

definition valid_index :: "nat \<Rightarrow> int \<Rightarrow> bool" where
  "valid_index n h = (- int n \<le> h \<and> h < int n)"

definition named_position :: "nat \<Rightarrow> int \<Rightarrow> nat" where
  "named_position n h = nat (if h < 0 then int n + h else h)"

definition highlight_indices :: "highlight \<Rightarrow> int list" where
  "highlight_indices hl = (case hl of Single h \<Rightarrow> [h] | Many hs \<Rightarrow> hs)"

text \<open>Whether the color sequence has one entry for each row of the input.\<close>

definition counts_rows :: "data \<Rightarrow> string \<Rightarrow> bool" where
  "counts_rows d plottype =
     (case d of Series dt rows \<Rightarrow> True | DataFrame dt idx cols \<Rightarrow> plottype = ''scatter''
      | Scalar v \<Rightarrow> False)"

definition is_pandas :: "data \<Rightarrow> bool" where
  "is_pandas d = (case d of Scalar v \<Rightarrow> False | _ \<Rightarrow> True)"

text \<open>The highlights that resolve within the plotted items. A list of indices for a table
  that is not drawn as scatter is taken here only when none of them is negative.\<close>

definition highlight_resolves :: "highlight \<Rightarrow> data \<Rightarrow> string \<Rightarrow> bool" where
  "highlight_resolves hl d plottype =
     (is_pandas d \<and>
      (\<forall>h \<in> set (highlight_indices hl).
         valid_index (plotted_count d plottype) h \<and>
         (case hl of Single _ \<Rightarrow> True | Many _ \<Rightarrow> counts_rows d plottype \<or> 0 \<le> h)))"

text \<open>The color sequence of the specification: neutral, except at the positions the
  highlight names.\<close>

definition expected_colors :: "highlight \<Rightarrow> nat \<Rightarrow> string list" where
  "expected_colors hl n =
     map (\<lambda>i. if i \<in> set (map (named_position n) (highlight_indices hl))
               then HIGHLIGHT_COLOR else ''lightgray'') [0..<n]"

text \<open>The category coordinate of slot \<open>i\<close> in the specification's words.\<close>

definition label_slot :: "nat \<Rightarrow> int option \<Rightarrow> int option \<Rightarrow> real" where
  "label_slot i bar_nr nr_bars =
     (case nr_bars of
        None \<Rightarrow> real i
      | Some n \<Rightarrow> real i - 0.5 + real_of_int (the bar_nr + 1) / real_of_int (n + 2))"

text \<open>Both of \<^verbatim>\<open>bar_nr\<close> and \<^verbatim>\<open>nr_bars\<close> or none, and a number of bars for which the
  quotient exists.\<close>

definition bars_given :: "int option \<Rightarrow> int option \<Rightarrow> bool" where
  "bars_given bar_nr nr_bars =
     ((bar_nr = None \<and> nr_bars = None) \<or>
      (bar_nr \<noteq> None \<and> nr_bars \<noteq> None \<and> nr_bars \<noteq> Some (- 2)))"

text \<open>The values that a format string can format, and the text it gives them.\<close>

definition formats :: "formatter \<Rightarrow> string \<Rightarrow> real \<Rightarrow> bool" where
  "formats format strfmt v = (case format strfmt (NumItem v) of Inl e \<Rightarrow> False | Inr t \<Rightarrow> True)"

definition label_text :: "formatter \<Rightarrow> string \<Rightarrow> real \<Rightarrow> string" where
  "label_text format strfmt v = (case format strfmt (NumItem v) of Inl e \<Rightarrow> [] | Inr t \<Rightarrow> t)"

text \<open>The label of slot \<open>i\<close> for a bar that ends at \<open>v\<close> and displays \<open>dv\<close>.\<close>

definition expected_label ::
  "formatter \<Rightarrow> axes \<Rightarrow> string \<Rightarrow> string \<Rightarrow> string \<Rightarrow> int option \<Rightarrow> int option \<Rightarrow> nat \<Rightarrow>
   real \<Rightarrow> real \<Rightarrow> text_call" where
  "expected_label format ax strfmt orient textcolor bar_nr nr_bars i v dv =
     (let lo = (if orient = ''v'' then fst (xlim ax) else fst (ylim ax));
          hi = (if orient = ''v'' then snd (xlim ax) else snd (ylim ax));
          along = v + 0.025 * (hi - lo);
          across = label_slot i bar_nr nr_bars
      in \<lparr> text_x = (if orient = ''v'' then along else across),
            text_y = (if orient = ''v'' then across else along),
            text_label = label_text format strfmt dv, text_color = textcolor,
            text_va = (if orient = ''v'' then ''center'' else ''bottom''),
            text_ha = (if orient = ''v'' then ''left'' else ''center'') \<rparr>)"

text \<open>The object that \<^verbatim>\<open>micompanyify\<close> works on after line 189, and the kind it draws:
  the one asked for, or else the one \<^verbatim>\<open>pick_plottype\<close> selects.\<close>

definition squeezed :: "squeeze_mode \<Rightarrow> data \<Rightarrow> data" where
  "squeezed mode inp = deref inp (squeeze mode inp)"

definition chosen_kind :: "squeeze_mode \<Rightarrow> data \<Rightarrow> string option \<Rightarrow> error + string" where
  "chosen_kind mode inp plottype =
     (case plottype of None \<Rightarrow> pick_plottype (squeezed mode inp) | Some p \<Rightarrow> Inr p)"

text \<open>The format string of the labels: the one asked for, or else the one lines 196 to
  201 select.\<close>

definition chosen_strfmt :: "string option \<Rightarrow> real list \<Rightarrow> string" where
  "chosen_strfmt strfmt vs =
     (case strfmt of
        None \<Rightarrow> if is_percentage_series vs then ''.1%'' else ''.2f''
      | Some f \<Rightarrow> f)"

text \<open>
  For the examples below: the texts that Python gives the values displayed there under
  the two format strings of lines 199 and 201. Outside this table the example formatter
  raises.
\<close>

definition example_format :: formatter where
  "example_format strfmt v =
     (case map_of
             [((''.2f'', NumItem 1), ''1.00''), ((''.2f'', NumItem 2), ''2.00''),
              ((''.2f'', NumItem 3), ''3.00''), ((''.2f'', NumItem 10), ''10.00''),
              ((''.2f'', NumItem 40), ''40.00''),
              ((''.1%'', NumItem (1 / 4)), ''25.0%''), ((''.1%'', NumItem (3 / 4)), ''75.0%''),
              ((''.1%'', NumItem 1), ''100.0%'')] (strfmt, v) of
        None \<Rightarrow> Inl ValueError
      | Some t \<Rightarrow> Inr t)"

text \<open>The drawing as a function of what lines 186 to 210 have prepared.\<close>

definition drawn :: "runtime \<Rightarrow> highlight \<Rightarrow> error + prepared \<Rightarrow> error + outcome" where
  "drawn env hl r =
     (case r of
        Inl e \<Rightarrow> Inl e
      | Inr p \<Rightarrow>
        (case snd (dispatch env hl (Scalar 0) p) of
           Inl e \<Rightarrow> Inl e
         | Inr (call, ts) \<Rightarrow>
             Inr \<lparr> o_plot = call, o_texts = ts,
                   o_xticks_cleared = (p_orient p = ''v'' \<and> p_plottype p \<noteq> ''scatter''),
                   o_yticks_cleared = (p_orient p = ''h'' \<and>
                      p_plottype p \<notin> set [''line_timeseries'', ''scatter'']) \<rparr>))"


section \<open>Properties of pick_plottype\<close>

lemma is_percentage_series_iff: "is_percentage_series vs \<longleftrightarrow> percentage_test vs"
proof -
  have "isclose s 1 \<longleftrightarrow> \<bar>s - 1\<bar> \<le> (1 / 10 ^ 9) * max \<bar>s\<bar> 1" for s :: real
    by (auto simp: isclose_def rel_tol_def max_def)
  then show ?thesis
    by (simp add: is_percentage_series_def percentage_test_def list_all_iff between_def)
qed

text \<open>
  Claim C2. For a Series or a DataFrame \<^verbatim>\<open>pick_plottype\<close> returns one kind, by these rules
  in this order: with a time index, \<open>bar_timeseries\<close> below 10 points and
  \<open>line_timeseries\<close> from 10 on; else for a Series, \<open>waterfall\<close> when every value lies
  in \<open>[0, 1]\<close> and the values sum to 1 within the tolerance, and \<open>bar\<close> otherwise; else
  for a DataFrame, \<open>composition_comparison\<close> when every column passes that test, and
  \<open>scatter\<close> otherwise.
\<close>

theorem pick_plottype_rules:
  "pick_plottype (Series dt rows) =
     Inr (if dt then (if length rows < 10 then ''bar_timeseries'' else ''line_timeseries'')
          else if percentage_test (map snd rows) then ''waterfall'' else ''bar'') \<and>
   pick_plottype (DataFrame dt idx cols) =
     Inr (if dt then (if length idx < 10 then ''bar_timeseries'' else ''line_timeseries'')
          else if (\<forall>c \<in> set cols. percentage_test (snd c)) then ''composition_comparison''
          else ''scatter'')"
  by (simp add: pick_plottype_def is_percentage_series_iff list_all_iff)

text \<open>
  The rules of C2 at five inputs, one for each branch but the long time series.
\<close>

theorem pick_plottype_rules_witness:
  "pick_plottype (Series False [(StrLabel ''a'', 1 / 4), (StrLabel ''b'', 3 / 4)]) = Inr ''waterfall'' \<and>
   pick_plottype (Series False [(StrLabel ''a'', 1 / 4), (StrLabel ''b'', 1 / 4)]) = Inr ''bar'' \<and>
   pick_plottype (DataFrame False [IntLabel 0, IntLabel 1]
       [(StrLabel ''x'', [1 / 2, 1 / 2]), (StrLabel ''y'', [1, 0])]) = Inr ''composition_comparison'' \<and>
   pick_plottype (DataFrame False [IntLabel 0, IntLabel 1]
       [(StrLabel ''x'', [1 / 2, 1 / 2]), (StrLabel ''y'', [1, 2])]) = Inr ''scatter'' \<and>
   pick_plottype (Series True [(IntLabel 0, 1), (IntLabel 1, 2)]) = Inr ''bar_timeseries''"
  using pick_plottype_rules [of False "[(StrLabel ''a'', 1 / 4), (StrLabel ''b'', 3 / 4)]"
      "[IntLabel 0, IntLabel 1]" "[(StrLabel ''x'', [1 / 2, 1 / 2]), (StrLabel ''y'', [1, 0])]"]
    pick_plottype_rules [of False "[(StrLabel ''a'', 1 / 4), (StrLabel ''b'', 1 / 4)]"
      "[IntLabel 0, IntLabel 1]" "[(StrLabel ''x'', [1 / 2, 1 / 2]), (StrLabel ''y'', [1, 2])]"]
    pick_plottype_rules [of True "[(IntLabel 0, 1), (IntLabel 1, 2)]" "[]" "[]"]
  by (simp add: percentage_test_def)

section \<open>Properties of plot_waterfall\<close>

lemma cumsum_from_nth:
  "i < length vs \<Longrightarrow> cumsum_from acc vs ! i = acc + sum_list (take (Suc i) vs)"
proof (induction vs arbitrary: acc i)
  case Nil
  then show ?case by simp
next
  case (Cons v vs)
  then show ?case by (cases i) (simp_all add: add.assoc)
qed

lemma length_cumsum_from [simp]: "length (cumsum_from acc vs) = length vs"
  by (induction vs arbitrary: acc) simp_all

lemma cumsum_from_Nil_iff [simp]: "cumsum_from acc vs = [] \<longleftrightarrow> vs = []"
  by (cases vs) simp_all

lemma length_offsets [simp]: "length (fillna 0 (shift (cumsum vs))) = length vs"
  by (cases vs) (simp_all add: fillna_def shift_def cumsum_def)

lemma offsets_nth:
  assumes "i < length vs"
  shows "fillna 0 (shift (cumsum vs)) ! i = sum_list (take i vs)"
proof (cases i)
  case 0
  with assms show ?thesis by (auto simp: fillna_def shift_def cumsum_def)
next
  case (Suc j)
  with assms have j: "j < length vs - 1" by simp
  have "fillna 0 (shift (cumsum vs)) ! i = butlast (cumsum_from 0 vs) ! j"
    using assms Suc j by (auto simp: fillna_def shift_def cumsum_def nth_butlast)
  also have "\<dots> = cumsum_from 0 vs ! j"
    using j by (simp add: nth_butlast)
  also have "\<dots> = sum_list (take i vs)"
    using j Suc by (simp add: cumsum_from_nth)
  finally show ?thesis .
qed

lemma offsets_eq:
  "fillna 0 (shift (cumsum vs)) = map (\<lambda>i. sum_list (take i vs)) [0..<length vs]"
  by (rule nth_equalityI) (simp_all add: offsets_nth)

text \<open>
  When no row is labelled \<open>total\<close> yet, the offsets are the sums of the values before
  each category, and a total row of offset 0 and a gray color are appended.
\<close>

lemma plot_waterfall_fresh_total:
  assumes "StrLabel ''total'' \<notin> set (map fst rows)"
  shows "plot_waterfall (Series dt rows) color False =
           Inr \<lparr> wf_arg = Series False (rows @ [(StrLabel ''total'', sum_list (map snd rows))]),
                 wf_data = Series False (rows @ [(StrLabel ''total'', sum_list (map snd rows))]),
                 wf_blank = Series False (zip (map fst rows) (baseline_offsets (map snd rows))
                                           @ [(StrLabel ''total'', 0)]),
                 wf_color = (case color of None \<Rightarrow> replicate (length rows) ''lightgray''
                                          | Some c \<Rightarrow> c) @ [''gray''] \<rparr>"
proof -
  have "map fst (zip (map fst rows) (baseline_offsets (map snd rows))) = map fst rows"
    by (simp add: baseline_offsets_def)
  with assms show ?thesis
    by (simp add: plot_waterfall_def Let_def loc_set_data_def blank_of_def loc_set_def
        offsets_eq baseline_offsets_def del: set_map map_fst_zip)
qed

lemma plot_waterfall_example:
  "plot_waterfall (Series False [(IntLabel 0, 10), (IntLabel 1, - 3), (IntLabel 2, 5)]) None False =
     Inr \<lparr> wf_arg = Series False [(IntLabel 0, 10), (IntLabel 1, - 3), (IntLabel 2, 5),
                                   (StrLabel ''total'', 12)],
           wf_data = Series False [(IntLabel 0, 10), (IntLabel 1, - 3), (IntLabel 2, 5),
                                    (StrLabel ''total'', 12)],
           wf_blank = Series False [(IntLabel 0, 0), (IntLabel 1, 10), (IntLabel 2, 7),
                                     (StrLabel ''total'', 0)],
           wf_color = [''lightgray'', ''lightgray'', ''lightgray'', ''gray''] \<rparr>"
  by (simp add: plot_waterfall_def Let_def loc_set_data_def blank_of_def loc_set_def
      fillna_def shift_def cumsum_def numeral_3_eq_3)

text \<open>
  Claim C3 asks for the offsets \<open>sum(series[0..i-1])\<close> and an appended \<open>total\<close> category
  for every input series. On a series that has a row labelled \<open>total\<close> already, line 82
  overwrites that row and appends none, line 83 sets its offset to 0, and line 84 still
  appends a color: two rows, three colors, and the offset of the second row is 0, not 1.
\<close>

theorem plot_waterfall_existing_total:
  "plot_waterfall (Series False [(StrLabel ''a'', 1), (StrLabel ''total'', 2)]) None False =
     Inr \<lparr> wf_arg = Series False [(StrLabel ''a'', 1), (StrLabel ''total'', 3)],
           wf_data = Series False [(StrLabel ''a'', 1), (StrLabel ''total'', 3)],
           wf_blank = Series False [(StrLabel ''a'', 0), (StrLabel ''total'', 0)],
           wf_color = [''lightgray'', ''lightgray'', ''gray''] \<rparr>"
  by (simp add: plot_waterfall_def Let_def loc_set_data_def blank_of_def loc_set_def
      fillna_def shift_def cumsum_def numeral_2_eq_2)

lemma plot_waterfall_buildup_general:
  "plot_waterfall d color True =
     map_sum id (\<lambda>w. w\<lparr> wf_data := reversed (wf_data w), wf_blank := reversed (wf_blank w),
                          wf_color := rev (wf_color w) \<rparr>) (plot_waterfall d color False)"
  by (cases d) (simp_all add: plot_waterfall_def Let_def)




section \<open>Properties of define_colors\<close>

lemma setitem_Inr:
  "setitem xs i v = Inr ys \<Longrightarrow> length ys = length xs \<and> set ys \<subseteq> insert v (set xs)"
  by (auto simp: setitem_def Let_def split: if_splits dest: subsetD [OF set_update_subset_insert])

lemma highlight_loop_Inr:
  "highlight_loop n color hs = Inr cs \<Longrightarrow>
     length cs = length color \<and> set cs \<subseteq> insert HIGHLIGHT_COLOR (set color)"
proof (induction hs arbitrary: color)
  case Nil
  then show ?case by auto
next
  case (Cons h hs)
  then obtain c' where s: "setitem color (if h < 0 then int n + h else h) HIGHLIGHT_COLOR = Inr c'"
    and l: "highlight_loop n c' hs = Inr cs"
    by (auto split: sum.splits)
  from setitem_Inr [OF s] Cons.IH [OF l] show ?case by auto
qed

lemma define_colors_Inr:
  assumes "define_colors hl d plottype = Inr cs"
  shows "length cs = plotted_count d plottype \<and> set cs \<subseteq> {''lightgray'', HIGHLIGHT_COLOR}"
proof (cases hl)
  case (Single h)
  with assms show ?thesis
    by (cases d) (auto simp: define_colors_def plotted_count_def dest!: setitem_Inr split: if_splits)
next
  case (Many hs)
  with assms show ?thesis
    by (cases d) (auto simp: define_colors_def plotted_count_def dest!: highlight_loop_Inr split: if_splits)
qed

lemma highlight_loop_in_range:
  assumes "\<forall>h \<in> set hs. 0 \<le> (if h < 0 then int n + h else h) \<and> (if h < 0 then int n + h else h) < int (length color)"
  shows "highlight_loop n color hs =
           Inr (map (\<lambda>i. if i \<in> set (map (\<lambda>h. nat (if h < 0 then int n + h else h)) hs)
                          then HIGHLIGHT_COLOR else color ! i) [0..<length color])"
  using assms
proof (induction hs arbitrary: color)
  case Nil
  then show ?case by (simp add: map_nth)
next
  case (Cons h hs)
  let ?j = "if h < 0 then int n + h else h"
  have s: "setitem color ?j HIGHLIGHT_COLOR = Inr (color[nat ?j := HIGHLIGHT_COLOR])"
    using Cons.prems by (simp add: setitem_def Let_def)
  have "highlight_loop n (color[nat ?j := HIGHLIGHT_COLOR]) hs =
          Inr (map (\<lambda>i. if i \<in> set (map (\<lambda>h. nat (if h < 0 then int n + h else h)) hs)
                          then HIGHLIGHT_COLOR else color[nat ?j := HIGHLIGHT_COLOR] ! i)
                 [0..<length (color[nat ?j := HIGHLIGHT_COLOR])])"
    using Cons.prems by (intro Cons.IH) simp
  then show ?case
    using s by (auto simp: nth_list_update)
qed

lemma setitem_replicate:
  assumes "valid_index n h"
  shows "setitem (replicate n c) h v =
           Inr (map (\<lambda>i. if i = named_position n h then v else c) [0..<n])"
proof -
  have "(replicate n c)[named_position n h := v] =
          map (\<lambda>i. if i = named_position n h then v else c) [0..<n]"
    by (rule nth_equalityI) (simp_all add: nth_list_update)
  with assms show ?thesis
    by (auto simp: setitem_def Let_def valid_index_def named_position_def)
qed

lemma highlight_loop_replicate:
  assumes "\<forall>h \<in> set hs. valid_index m h \<and> (n = m \<or> 0 \<le> h)"
  shows "highlight_loop n (replicate m ''lightgray'') hs = Inr (expected_colors (Many hs) m)"
proof -
  have eq: "nat (if h < 0 then int n + h else h) = named_position m h" if "h \<in> set hs" for h
    using assms that by (auto simp: named_position_def valid_index_def)
  have "\<forall>h \<in> set hs. 0 \<le> (if h < 0 then int n + h else h) \<and>
          (if h < 0 then int n + h else h) < int (length (replicate m ''lightgray''))"
    using assms by (auto simp: valid_index_def)
  from highlight_loop_in_range [OF this]
  have "highlight_loop n (replicate m ''lightgray'') hs =
          Inr (map (\<lambda>i. if i \<in> set (map (\<lambda>h. nat (if h < 0 then int n + h else h)) hs)
                         then HIGHLIGHT_COLOR else ''lightgray'') [0..<m])"
    by simp
  moreover have "map (\<lambda>h. nat (if h < 0 then int n + h else h)) hs = map (named_position m) hs"
    using eq by (intro map_cong) simp_all
  ultimately show ?thesis
    by (simp add: expected_colors_def highlight_indices_def)
qed

lemma define_colors_resolved:
  assumes "highlight_resolves hl d plottype"
  shows "define_colors hl d plottype = Inr (expected_colors hl (plotted_count d plottype))"
proof (cases hl)
  case (Single h)
  with assms have "valid_index (plotted_count d plottype) h" and "is_pandas d"
    by (simp_all add: highlight_resolves_def highlight_indices_def)
  with Single show ?thesis
    by (cases d)
      (auto simp: define_colors_def plotted_count_def is_pandas_def setitem_replicate
        expected_colors_def highlight_indices_def)
next
  case (Many hs)
  with assms have v: "\<forall>h \<in> set hs. valid_index (plotted_count d plottype) h \<and>
      (counts_rows d plottype \<or> 0 \<le> h)" and "is_pandas d"
    by (simp_all add: highlight_resolves_def highlight_indices_def)
  show ?thesis
  proof (cases d)
    case (Series dt rows)
    with v have "\<forall>h \<in> set hs. valid_index (length rows) h \<and> (length rows = length rows \<or> 0 \<le> h)"
      by (simp add: plotted_count_def)
    from highlight_loop_replicate [OF this] Series Many show ?thesis
      by (simp add: define_colors_def plotted_count_def)
  next
    case (DataFrame dt idx cols)
    show ?thesis
    proof (cases "plottype = ''scatter''")
      case True
      with v DataFrame
      have "\<forall>h \<in> set hs. valid_index (length idx) h \<and> (length idx = length idx \<or> 0 \<le> h)"
        by (simp add: plotted_count_def)
      from highlight_loop_replicate [OF this] DataFrame Many True show ?thesis
        by (simp add: define_colors_def plotted_count_def)
    next
      case False
      with v DataFrame
      have "\<forall>h \<in> set hs. valid_index (length cols) h \<and> (length idx = length cols \<or> 0 \<le> h)"
        by (simp add: plotted_count_def counts_rows_def)
      from highlight_loop_replicate [OF this] DataFrame Many False show ?thesis
        by (simp add: define_colors_def plotted_count_def)
    qed
  next
    case (Scalar x)
    with \<open>is_pandas d\<close> show ?thesis by (simp add: is_pandas_def)
  qed
qed

text \<open>
  An index outside the color sequence is a usage error: line 120 raises.
\<close>

lemma define_colors_out_of_range:
  "define_colors (Single 5) (Series False [(StrLabel ''a'', 1), (StrLabel ''b'', 2)]) ''bar''
     = Inl IndexError"
  by (simp add: define_colors_def setitem_def)

text \<open>
  Whenever \<^verbatim>\<open>define_colors\<close> returns a color sequence for a Series or a DataFrame, its
  length is the number of plotted items (categories for a Series, columns for a
  DataFrame, rows for a DataFrame drawn as scatter), and every position carries the
  neutral or the highlight color. When the highlight resolves within that length (for a
  list of indices on a table that is not drawn as scatter: without negative entries), it
  does return, and the highlight color is at the positions the highlight names and
  nowhere else.
\<close>

lemma define_colors_length_and_highlight:
  "(\<forall>cs. define_colors hl d plottype = Inr cs \<longrightarrow>
      length cs = plotted_count d plottype \<and> set cs \<subseteq> {''lightgray'', HIGHLIGHT_COLOR}) \<and>
   (highlight_resolves hl d plottype \<longrightarrow>
      define_colors hl d plottype = Inr (expected_colors hl (plotted_count d plottype)))"
  using define_colors_Inr define_colors_resolved by blast

text \<open>
  Claim C5 says that the color sequence has one entry for each plotted item and that
  every position is neutral except those the highlight names. The length is as claimed.
  On a table of two rows and four columns drawn as \<open>bar\<close>, the list \<open>[-1]\<close> is a valid
  index of the four colors and names the last of them; line 117 moves it by
  \<^verbatim>\<open>len(data)\<close>, the two rows, and the second color is marked instead. The same
  line makes a single integer and its one-element list differ, as shown below.
\<close>

theorem define_colors_list_on_table:
  "define_colors (Many [- 1])
     (DataFrame False [IntLabel 0, IntLabel 1]
        [(StrLabel ''w'', [1, 2]), (StrLabel ''x'', [3, 4]), (StrLabel ''y'', [5, 6]),
         (StrLabel ''z'', [7, 8])]) ''bar''
     = Inr [''lightgray'', ''purple'', ''lightgray'', ''lightgray''] \<and>
   plotted_count
     (DataFrame False [IntLabel 0, IntLabel 1]
        [(StrLabel ''w'', [1, 2]), (StrLabel ''x'', [3, 4]), (StrLabel ''y'', [5, 6]),
         (StrLabel ''z'', [7, 8])]) ''bar'' = 4 \<and>
   valid_index 4 (- 1) \<and> named_position 4 (- 1) = 3"
  by (simp add: define_colors_def setitem_def HIGHLIGHT_COLOR_def plotted_count_def
      valid_index_def named_position_def)

text \<open>
  Claim C6 says that a negative integer \<open>h\<close> and the list \<open>[h]\<close> give the same colors on
  every input. The loop of line 116 moves a negative index by \<^verbatim>\<open>len(data)\<close>, the number of
  rows, while the color sequence of a table has one entry for each column: on a table of
  two rows and three columns, \<open>-1\<close> marks the last column and \<open>[-1]\<close> the second.
\<close>

theorem define_colors_table_negative:
  "define_colors (Single (- 1))
     (DataFrame False [IntLabel 0, IntLabel 1]
        [(StrLabel ''x'', [1, 2]), (StrLabel ''y'', [3, 4]), (StrLabel ''z'', [5, 6])]) ''bar''
     = Inr [''lightgray'', ''lightgray'', ''purple''] \<and>
   define_colors (Many [- 1])
     (DataFrame False [IntLabel 0, IntLabel 1]
        [(StrLabel ''x'', [1, 2]), (StrLabel ''y'', [3, 4]), (StrLabel ''z'', [5, 6])]) ''bar''
     = Inr [''lightgray'', ''purple'', ''lightgray'']"
  by (simp add: define_colors_def setitem_def HIGHLIGHT_COLOR_def numeral_3_eq_3)

text \<open>
  Where the color sequence has one entry for each row (a Series, or the kind scatter),
  the two agree.
\<close>

lemma define_colors_single_is_list:
  assumes "counts_rows d plottype" and "h < 0" and "valid_index (plotted_count d plottype) h"
  shows "define_colors (Single h) d plottype = define_colors (Many [h]) d plottype"
proof -
  from assms have "is_pandas d"
    by (cases d) (simp_all add: counts_rows_def is_pandas_def)
  with assms have "highlight_resolves (Single h) d plottype" "highlight_resolves (Many [h]) d plottype"
    by (simp_all add: highlight_resolves_def highlight_indices_def)
  then show ?thesis
    by (simp add: define_colors_resolved expected_colors_def highlight_indices_def)
qed

text \<open>
  Claim C8 says that the highlight \<open>-1\<close> marks the last position for data of any length.
  On data without a plotted item there is no last position, and line 120 raises.
\<close>

theorem define_colors_empty:
  "define_colors (Single (- 1)) (Series False []) ''bar'' = Inl IndexError"
  by (simp add: define_colors_def setitem_def)

text \<open>
  Claim C8, amended. For every Series or DataFrame with at least one plotted item and
  every kind, \<^verbatim>\<open>define_colors\<close> with the highlight \<open>-1\<close> returns a sequence in which the
  last position carries the highlight color and all others the neutral color.
\<close>

theorem define_colors_last:
  "0 < plotted_count d plottype \<Longrightarrow>
   define_colors (Single (- 1)) d plottype =
     Inr (replicate (plotted_count d plottype - 1) ''lightgray'' @ [HIGHLIGHT_COLOR])"
proof -
  assume pos: "0 < plotted_count d plottype"
  have "(replicate (Suc k) c)[k := v] = replicate k c @ [v]" for k and c v :: string
    by (induction k) simp_all
  then have upd: "(replicate n c)[n - 1 := v] = replicate (n - 1) c @ [v]" if "0 < n"
    for n and c v :: string
    using that by (cases n) simp_all
  have "setitem (replicate n ''lightgray'') (- 1) HIGHLIGHT_COLOR =
          Inr (replicate (n - 1) ''lightgray'' @ [HIGHLIGHT_COLOR])" if "0 < n" for n
    using that upd [OF that] by (simp add: setitem_def Let_def nat_diff_distrib')
  with pos show ?thesis
    by (cases d) (auto simp: define_colors_def plotted_count_def split: if_splits)
qed

text \<open>
  C8 at a series of two categories.
\<close>

theorem define_colors_last_witness:
  "0 < plotted_count (Series False [(StrLabel ''a'', 1), (StrLabel ''b'', 2)]) ''bar'' \<and>
   define_colors (Single (- 1)) (Series False [(StrLabel ''a'', 1), (StrLabel ''b'', 2)]) ''bar''
     = Inr [''lightgray'', ''purple'']"
  using define_colors_last [of "Series False [(StrLabel ''a'', 1), (StrLabel ''b'', 2)]" "''bar''"]
  by (simp add: plotted_count_def HIGHLIGHT_COLOR_def)

section \<open>Properties of plot_values_above_bar\<close>

lemma slot_coordinate_given:
  assumes "bars_given bar_nr nr_bars"
  shows "slot_coordinate i (case nr_bars of None \<Rightarrow> None | Some n \<Rightarrow> Some (the bar_nr, n))
           = Inr (label_slot i bar_nr nr_bars)"
  using assms
  by (cases nr_bars) (auto simp: slot_coordinate_def label_slot_def bars_given_def)

lemma formats_label_text:
  "formats format strfmt v \<Longrightarrow> format strfmt (NumItem v) = Inr (label_text format strfmt v)"
  by (simp add: formats_def label_text_def split: sum.splits)

lemma label_loop_numbers:
  assumes "\<forall>k. slot_coordinate k bars = Inr (slot k)"
    and "\<forall>p \<in> set ps. formats format strfmt (snd p)"
  shows "label_loop format plotsize bars orient strfmt textcolor va ha i
           (map (\<lambda>p. (NumItem (fst p), NumItem (snd p))) ps) =
         Inr (map (\<lambda>k. \<lparr> text_x = (if orient = ''v'' then fst (ps ! k) + 0.025 * plotsize else slot (i + k)),
                          text_y = (if orient = ''v'' then slot (i + k) else fst (ps ! k) + 0.025 * plotsize),
                          text_label = label_text format strfmt (snd (ps ! k)),
                          text_color = textcolor, text_va = va, text_ha = ha \<rparr>)
                [0..<length ps])"
  using assms(2)
proof (induction ps arbitrary: i)
  case Nil
  then show ?case by simp
next
  case (Cons p ps)
  then have f: "format strfmt (NumItem (snd p)) = Inr (label_text format strfmt (snd p))"
    by (simp add: formats_label_text)
  from Cons.prems have "\<forall>p \<in> set ps. formats format strfmt (snd p)"
    by simp
  from Cons.IH [OF this, of "Suc i"] show ?case
    using assms(1) f
    by (simp add: map_upt_Suc del: upt_Suc)
qed

lemma plot_values_above_bar_series:
  assumes "orient = ''v'' \<or> orient = ''h''" and "bars_given bar_nr nr_bars"
    and "length drows = length rows"
    and "\<forall>r \<in> set drows. formats format strfmt (snd r)"
  shows "plot_values_above_bar format (Series dt rows) (Some (Series dt' drows)) ax strfmt orient
           textcolor bar_nr nr_bars =
         Inr (map (\<lambda>i. expected_label format ax strfmt orient textcolor bar_nr nr_bars i
                          (snd (rows ! i)) (snd (drows ! i))) [0..<length rows])"
proof -
  let ?bars = "case nr_bars of None \<Rightarrow> None | Some n \<Rightarrow> Some (the bar_nr, n)"
  let ?ps = "zip (map snd rows) (map snd drows)"
  have z: "zip (map (\<lambda>r. NumItem (snd r)) rows) (map (\<lambda>r. NumItem (snd r)) drows) =
             map (\<lambda>p. (NumItem (fst p), NumItem (snd p))) ?ps"
    by (auto simp: zip_map_map)
  have slot: "\<forall>k. slot_coordinate k ?bars = Inr (label_slot k bar_nr nr_bars)"
    using assms(2) by (simp add: slot_coordinate_given)
  have fm: "\<forall>p \<in> set ?ps. formats format strfmt (snd p)"
    using assms(4) by (auto dest!: set_zip_rightD)
  have both: "(bar_nr = None) = (nr_bars = None)"
    using assms(2) by (auto simp: bars_given_def)
  have len: "length ?ps = length rows"
    using assms(3) by simp
  show ?thesis
    unfolding plot_values_above_bar_def
    using assms(1,3) both
    by (auto simp add: Let_def z label_loop_numbers [OF slot fm] len expected_label_def
        simp del: length_zip)
qed

text \<open>The formatting of line 56 can raise: when it does at the first value, so does
  the call.\<close>

lemma plot_values_above_bar_format_error:
  assumes "orient = ''v'' \<or> orient = ''h''" and "bars_given bar_nr nr_bars"
    and "format strfmt (NumItem v) = Inl e"
  shows "plot_values_above_bar format (Series dt ((l, v) # rows)) None ax strfmt orient textcolor
           bar_nr nr_bars = Inl e"
proof -
  have both: "(bar_nr = None) = (nr_bars = None)"
    using assms(2) by (auto simp: bars_given_def)
  show ?thesis
    unfolding plot_values_above_bar_def
    using assms(1,3) both slot_coordinate_given [OF assms(2), of 0]
    by (auto simp add: Let_def)
qed

text \<open>
  Claim C7. For a bar that ends at \<open>v\<close> and an axis range \<open>[lo, hi]\<close>, the label is placed
  at \<open>v + 0.025 * (hi - lo)\<close> along the value axis; when \<^verbatim>\<open>bar_nr\<close> and \<^verbatim>\<open>nr_bars\<close> are
  both given, the category coordinate of slot \<open>i\<close> is
  \<open>i - 0.5 + (bar_nr + 1) / (nr_bars + 2)\<close>, and \<open>i\<close> itself when none is given. This is
  for the values that the format string can format; for the others line 56 raises.
\<close>

theorem plot_values_above_bar_positions:
  assumes "orient = ''v'' \<or> orient = ''h''" and "bars_given bar_nr nr_bars"
    and "\<forall>r \<in> set rows. formats format strfmt (snd r)"
  shows "plot_values_above_bar format (Series dt rows) None ax strfmt orient textcolor bar_nr
           nr_bars =
         Inr (map (\<lambda>i. expected_label format ax strfmt orient textcolor bar_nr nr_bars i
                          (snd (rows ! i)) (snd (rows ! i))) [0..<length rows])"
proof -
  have "plot_values_above_bar format (Series dt rows) None ax strfmt orient textcolor bar_nr
          nr_bars =
        plot_values_above_bar format (Series dt rows) (Some (Series dt rows)) ax strfmt orient
          textcolor bar_nr nr_bars"
    by (cases nr_bars; cases bar_nr) (simp_all add: plot_values_above_bar_def)
  then show ?thesis
    using plot_values_above_bar_series [OF assms(1,2) _ assms(3), of rows dt dt] by simp
qed

text \<open>
  C7 on the range \<open>[0, 100]\<close>: a bar ending at 40 is labelled at 42.5; and with the first
  of two grouped series, slot 0 lies at \<open>-0.25\<close> and slot 1 at \<open>0.75\<close>.
\<close>

theorem plot_values_above_bar_positions_witness:
  "plot_values_above_bar example_format (Series False [(StrLabel ''a'', 40)]) None
       \<lparr> xlim = (0, 100), ylim = (0, 1) \<rparr> ''.2f'' ''v'' ''black'' None None =
     Inr [\<lparr> text_x = 42.5, text_y = 0, text_label = ''40.00'',
            text_color = ''black'', text_va = ''center'', text_ha = ''left'' \<rparr>] \<and>
   plot_values_above_bar example_format (Series False [(StrLabel ''a'', 40), (StrLabel ''b'', 10)])
       None \<lparr> xlim = (0, 1), ylim = (0, 100) \<rparr> ''.2f'' ''h'' ''black'' (Some 0) (Some 2) =
     Inr [\<lparr> text_x = - 0.25, text_y = 42.5, text_label = ''40.00'',
            text_color = ''black'', text_va = ''bottom'', text_ha = ''center'' \<rparr>,
          \<lparr> text_x = 0.75, text_y = 12.5, text_label = ''10.00'',
            text_color = ''black'', text_va = ''bottom'', text_ha = ''center'' \<rparr>]"
proof -
  have f: "\<forall>r \<in> set [(StrLabel ''a'', 40 :: real), (StrLabel ''b'', 10)].
             formats example_format ''.2f'' (snd r)"
    by (simp add: formats_def example_format_def)
  then have f1: "\<forall>r \<in> set [(StrLabel ''a'', 40 :: real)]. formats example_format ''.2f'' (snd r)"
    by simp
  have t: "label_text example_format ''.2f'' 40 = ''40.00''"
    "label_text example_format ''.2f'' 10 = ''10.00''"
    by (simp_all add: label_text_def example_format_def)
  show ?thesis
    using plot_values_above_bar_positions [where orient = "''v''" and bar_nr = None
        and nr_bars = None and rows = "[(StrLabel ''a'', 40)]" and format = example_format
        and strfmt = "''.2f''" and dt = False and ax = "\<lparr> xlim = (0, 100), ylim = (0, 1) \<rparr>"
        and textcolor = "''black''", OF _ _ f1]
      plot_values_above_bar_positions [where orient = "''h''" and bar_nr = "Some 0"
        and nr_bars = "Some 2" and rows = "[(StrLabel ''a'', 40), (StrLabel ''b'', 10)]"
        and format = example_format and strfmt = "''.2f''" and dt = False
        and ax = "\<lparr> xlim = (0, 1), ylim = (0, 100) \<rparr>" and textcolor = "''black''", OF _ _ f]
    by (simp add: expected_label_def bars_given_def label_slot_def numeral_2_eq_2 t)
qed

section \<open>Properties of micompanyify\<close>

lemma sort_key_rev_distinct:
  assumes "distinct (map f xs)"
  shows "sort_key f (rev xs) = sort_key f xs"
proof -
  have inj: "inj_on f (set xs)"
    using assms by (simp add: distinct_map)
  have "map f (sort_key f (rev xs)) = map f (sort_key f xs)"
  proof (rule sorted_distinct_set_unique)
    show "distinct (map f (sort_key f (rev xs)))"
      using assms by (simp add: distinct_map)
    show "distinct (map f (sort_key f xs))"
      using assms by (simp add: distinct_map)
  qed simp_all
  moreover have "inj_on f (set (sort_key f (rev xs)) \<union> set (sort_key f xs))"
    using inj by simp
  ultimately show ?thesis
    by (simp add: inj_on_map_eq_map)
qed

lemma sort_values_descending:
  "distinct (map snd rows) \<Longrightarrow> sort_values False rows = rev (sort_values True rows)"
  by (simp add: sort_values_def sort_key_rev_distinct)

lemma prepare_series:
  assumes "length rows \<noteq> 1" and "chosen_kind mode (Series dt rows) pt = Inr k"
    and "k \<notin> set unsorted_kinds" and "define_colors hl (Series dt rows) k = Inr cs"
  shows "prepare mode (Series dt rows) hl pt (Some a) fmt =
           Inr \<lparr> p_binding = Local (Series dt (sort_values a rows)),
                 p_data = Series dt (sort_values a rows), p_plottype = k,
                 p_orient = ''v'',
                 p_strfmt = chosen_strfmt fmt (map snd rows), p_color = cs \<rparr>"
proof -
  have d: "squeezed mode (Series dt rows) = Series dt rows"
    using assms(1) by (cases mode) (simp_all add: squeezed_def squeeze_def deref_def)
  have o: "k \<noteq> ''bar_timeseries''" "k \<noteq> ''line_timeseries''"
    using assms(3) by (auto simp: unsorted_kinds_def)
  have c: "(case pt of None \<Rightarrow> pick_plottype (Series dt rows) | Some p \<Rightarrow> Inr p) = Inr k"
    using assms(2) by (cases pt) (simp_all add: chosen_kind_def d)
  show ?thesis
    using assms(1,3,4) o c
    by (cases mode; cases pt)
      (simp_all add: prepare_def squeeze_def Let_def is_series_def deref_def all_percentages_def
        chosen_strfmt_def)
qed

lemma value_labels_series:
  assumes "\<forall>r \<in> set rows. formats format fmt (snd r)"
  shows "value_labels format (Series dt rows) ax fmt ''v'' =
     Inr (map (\<lambda>i. expected_label format ax fmt ''v'' ''black'' None None i
                      (snd (rows ! i)) (snd (rows ! i))) [0..<length rows])"
  using plot_values_above_bar_series [of "''v''" None None rows rows format fmt dt dt ax
      "''black''"] assms
  by (simp add: value_labels_def plot_values_above_bar_def bars_given_def)

lemma micompanyify_bar_series:
  assumes "prepare mode inp hl pt asc fmt =
             Inr \<lparr> p_binding = b, p_data = Series dt rows, p_plottype = ''bar'', p_orient = ''v'',
                   p_strfmt = f, p_color = cs \<rparr>"
    and "\<forall>r \<in> set rows. formats (py_format env) f (snd r)"
  shows "\<exists>r. snd (micompanyify mode env inp hl pt asc fmt) = Inr r \<and>
             o_plot r = Plot ''barh'' (Series dt rows) False None cs"
  using assms
  by (simp add: micompanyify_def dispatch_def Let_def value_labels_series)

text \<open>
  Claim C1 says that sorting permutes the colors with the categories, so that the
  highlight stays with its category. The colors are computed in line 203 from the
  unsorted series and are handed to the plot as they are: on \<open>a = 3, b = 1, c = 2\<close> the
  highlight \<open>-1\<close> is the color of the third position, which is category \<open>c\<close> before the
  sort and category \<open>a\<close> in the plot.
\<close>

theorem highlight_stays_at_position:
  "define_colors (Single (- 1))
     (Series False [(StrLabel ''a'', 3), (StrLabel ''b'', 1), (StrLabel ''c'', 2)]) ''bar''
     = Inr [''lightgray'', ''lightgray'', ''purple''] \<and>
   map_sum id o_plot
     (snd (micompanyify SameObject
        \<lparr> axes_after = (\<lambda>c. \<lparr> xlim = (0, 4), ylim = (0, 4) \<rparr>), py_format = example_format \<rparr>
        (Series False [(StrLabel ''a'', 3), (StrLabel ''b'', 1), (StrLabel ''c'', 2)])
        (Single (- 1)) (Some ''bar'') (Some True) None))
     = Inr (Plot ''barh''
              (Series False [(StrLabel ''b'', 1), (StrLabel ''c'', 2), (StrLabel ''a'', 3)])
              False None [''lightgray'', ''lightgray'', ''purple''])"
  by (simp add: micompanyify_def prepare_def dispatch_def squeeze_def deref_def define_colors_def
      setitem_def HIGHLIGHT_COLOR_def unsorted_kinds_def is_series_def all_percentages_def
      sort_values_def value_labels_def plot_values_above_bar_def slot_coordinate_def
      example_format_def is_percentage_series_def between_def Let_def)

text \<open>
  Claim C1, amended. For every series of distinct values that \<^verbatim>\<open>squeeze\<close> leaves a series
  (not exactly one value), every kind that is sorted and every highlight that
  \<^verbatim>\<open>define_colors\<close> accepts, the rows sorted descending are the reverse of the rows sorted
  ascending, and in both orders the color sequence is the one computed for the unsorted
  series: the highlight color stays at its position. For the kind \<open>bar\<close>, when the
  format string of the labels can format the values, this is what the bar plot is drawn
  from.
\<close>

theorem sorting_reverses_rows_not_colors:
  assumes "distinct (map snd rows)" and "length rows \<noteq> 1"
    and "chosen_kind mode (Series dt rows) pt = Inr k" and "k \<notin> set unsorted_kinds"
    and "define_colors hl (Series dt rows) k = Inr cs"
  shows "(\<exists>up down.
            prepare mode (Series dt rows) hl pt (Some True) fmt = Inr up \<and>
            prepare mode (Series dt rows) hl pt (Some False) fmt = Inr down \<and>
            p_data up = Series dt (sort_key snd rows) \<and>
            p_data down = Series dt (rev (sort_key snd rows)) \<and>
            p_color up = cs \<and> p_color down = cs) \<and>
         (k = ''bar'' \<and>
          (\<forall>r \<in> set rows. formats (py_format env) (chosen_strfmt fmt (map snd rows)) (snd r)) \<longrightarrow>
            (\<exists>up down.
               snd (micompanyify mode env (Series dt rows) hl pt (Some True) fmt) = Inr up \<and>
               snd (micompanyify mode env (Series dt rows) hl pt (Some False) fmt) = Inr down \<and>
               o_plot up = Plot ''barh'' (Series dt (sort_key snd rows)) False None cs \<and>
               o_plot down = Plot ''barh'' (Series dt (rev (sort_key snd rows))) False None cs))"
proof -
  note p = prepare_series [OF assms(2-5)]
  have asc: "sort_values True rows = sort_key snd rows"
    by (simp add: sort_values_def)
  have desc: "sort_values False rows = rev (sort_key snd rows)"
    using sort_values_descending [OF assms(1)] asc by simp
  have first: "\<exists>up down.
            prepare mode (Series dt rows) hl pt (Some True) fmt = Inr up \<and>
            prepare mode (Series dt rows) hl pt (Some False) fmt = Inr down \<and>
            p_data up = Series dt (sort_key snd rows) \<and>
            p_data down = Series dt (rev (sort_key snd rows)) \<and>
            p_color up = cs \<and> p_color down = cs"
    by (simp add: p asc desc)
  have second: "\<exists>up down.
               snd (micompanyify mode env (Series dt rows) hl pt (Some True) fmt) = Inr up \<and>
               snd (micompanyify mode env (Series dt rows) hl pt (Some False) fmt) = Inr down \<and>
               o_plot up = Plot ''barh'' (Series dt (sort_key snd rows)) False None cs \<and>
               o_plot down = Plot ''barh'' (Series dt (rev (sort_key snd rows))) False None cs"
    if "k = ''bar''"
      and f: "\<forall>r \<in> set rows. formats (py_format env) (chosen_strfmt fmt (map snd rows)) (snd r)"
  proof -
    from f have fs: "\<forall>r \<in> set (sort_key snd rows).
        formats (py_format env) (chosen_strfmt fmt (map snd rows)) (snd r)"
      and fr: "\<forall>r \<in> set (rev (sort_key snd rows)).
        formats (py_format env) (chosen_strfmt fmt (map snd rows)) (snd r)"
      by simp_all
    from micompanyify_bar_series [of mode "Series dt rows" hl pt "Some True" fmt _ dt
        "sort_key snd rows" _ cs env, OF _ fs] p [of True fmt] that(1) asc
    obtain up where "snd (micompanyify mode env (Series dt rows) hl pt (Some True) fmt) = Inr up"
      "o_plot up = Plot ''barh'' (Series dt (sort_key snd rows)) False None cs"
      by auto
    moreover
    from micompanyify_bar_series [of mode "Series dt rows" hl pt "Some False" fmt _ dt
        "rev (sort_key snd rows)" _ cs env, OF _ fr] p [of False fmt] that(1) desc
    obtain down where "snd (micompanyify mode env (Series dt rows) hl pt (Some False) fmt) = Inr down"
      "o_plot down = Plot ''barh'' (Series dt (rev (sort_key snd rows))) False None cs"
      by auto
    ultimately show ?thesis by blast
  qed
  from first second show ?thesis by blast
qed

text \<open>
  C1 at the series \<open>a = 3, b = 1, c = 2\<close> with the kind \<open>bar\<close>.
\<close>

theorem sorting_reverses_rows_not_colors_witness:
  "distinct (map snd [(StrLabel ''a'', 3 :: real), (StrLabel ''b'', 1), (StrLabel ''c'', 2)]) \<and>
   length [(StrLabel ''a'', 3 :: real), (StrLabel ''b'', 1), (StrLabel ''c'', 2)] \<noteq> 1 \<and>
   chosen_kind SameObject
     (Series False [(StrLabel ''a'', 3), (StrLabel ''b'', 1), (StrLabel ''c'', 2)]) (Some ''bar'')
     = Inr ''bar'' \<and>
   ''bar'' \<notin> set unsorted_kinds \<and>
   define_colors (Single (- 1))
     (Series False [(StrLabel ''a'', 3), (StrLabel ''b'', 1), (StrLabel ''c'', 2)]) ''bar''
     = Inr [''lightgray'', ''lightgray'', ''purple''] \<and>
   formats example_format ''.2f'' 3 \<and> formats example_format ''.2f'' 1 \<and>
   formats example_format ''.2f'' 2 \<and>
   (\<exists>up down.
      snd (micompanyify SameObject 
            \<lparr> axes_after = (\<lambda>c. \<lparr> xlim = (0, 4), ylim = (0, 4) \<rparr>), py_format = example_format \<rparr>
            (Series False [(StrLabel ''a'', 3), (StrLabel ''b'', 1), (StrLabel ''c'', 2)])
            (Single (- 1)) (Some ''bar'') (Some True) None) = Inr up \<and>
      snd (micompanyify SameObject 
            \<lparr> axes_after = (\<lambda>c. \<lparr> xlim = (0, 4), ylim = (0, 4) \<rparr>), py_format = example_format \<rparr>
            (Series False [(StrLabel ''a'', 3), (StrLabel ''b'', 1), (StrLabel ''c'', 2)])
            (Single (- 1)) (Some ''bar'') (Some False) None) = Inr down \<and>
      o_plot up = Plot ''barh''
        (Series False [(StrLabel ''b'', 1), (StrLabel ''c'', 2), (StrLabel ''a'', 3)])
        False None [''lightgray'', ''lightgray'', ''purple''] \<and>
      o_plot down = Plot ''barh''
        (Series False [(StrLabel ''a'', 3), (StrLabel ''c'', 2), (StrLabel ''b'', 1)])
        False None [''lightgray'', ''lightgray'', ''purple''])"
proof -
  let ?rows = "[(StrLabel ''a'', 3 :: real), (StrLabel ''b'', 1), (StrLabel ''c'', 2)]"
  have h1: "distinct (map snd ?rows)" and h2: "length ?rows \<noteq> 1"
    by simp_all
  have h3: "chosen_kind SameObject (Series False ?rows) (Some ''bar'') = Inr ''bar''"
    by (simp add: chosen_kind_def)
  have h4: "''bar'' \<notin> set unsorted_kinds"
    by (simp add: unsorted_kinds_def)
  have h5: "define_colors (Single (- 1)) (Series False ?rows) ''bar''
              = Inr [''lightgray'', ''lightgray'', ''purple'']"
    by (simp add: define_colors_def setitem_def HIGHLIGHT_COLOR_def)
  have h6: "formats example_format ''.2f'' 3" "formats example_format ''.2f'' 1"
    "formats example_format ''.2f'' 2"
    by (simp_all add: formats_def example_format_def)
  have c: "chosen_strfmt None [3, 1, 2] = ''.2f''"
    by (simp add: chosen_strfmt_def is_percentage_series_def between_def)
  have s: "sort_key snd ?rows = [(StrLabel ''b'', 1), (StrLabel ''c'', 2), (StrLabel ''a'', 3)]"
    by simp
  from sorting_reverses_rows_not_colors [OF h1 h2 h3 h4 h5,
      where env = "\<lparr> axes_after = (\<lambda>c. \<lparr> xlim = (0, 4), ylim = (0, 4) \<rparr>), py_format = example_format \<rparr>" and fmt = None]
  have "\<exists>up down.
      snd (micompanyify SameObject 
            \<lparr> axes_after = (\<lambda>c. \<lparr> xlim = (0, 4), ylim = (0, 4) \<rparr>), py_format = example_format \<rparr>
            (Series False ?rows) (Single (- 1)) (Some ''bar'') (Some True) None) = Inr up \<and>
      snd (micompanyify SameObject 
            \<lparr> axes_after = (\<lambda>c. \<lparr> xlim = (0, 4), ylim = (0, 4) \<rparr>), py_format = example_format \<rparr>
            (Series False ?rows) (Single (- 1)) (Some ''bar'') (Some False) None) = Inr down \<and>
      o_plot up = Plot ''barh''
        (Series False [(StrLabel ''b'', 1), (StrLabel ''c'', 2), (StrLabel ''a'', 3)])
        False None [''lightgray'', ''lightgray'', ''purple''] \<and>
      o_plot down = Plot ''barh''
        (Series False [(StrLabel ''a'', 3), (StrLabel ''c'', 2), (StrLabel ''b'', 1)])
        False None [''lightgray'', ''lightgray'', ''purple'']"
    unfolding s using h6 by (simp add: c)
  with h1 h2 h3 h4 h5 h6 show ?thesis
    by blast
qed

lemma dispatch_keeps_caller:
  assumes "p_plottype p \<notin> {''waterfall'', ''waterfall_buildup''} \<or> p_binding p \<noteq> Caller"
  shows "fst (dispatch env hl inp p) = inp"
proof (cases "p_plottype p \<in> {''waterfall'', ''waterfall_buildup''}")
  case False
  then show ?thesis
    by (simp add: dispatch_def Let_def)
next
  case True
  with assms obtain d where "p_binding p = Local d"
    by (cases "p_binding p") auto
  then have "fst (render_waterfall env b inp p) = inp" for b
    by (simp add: render_waterfall_def write_through_def Let_def split: sum.splits)
  with True show ?thesis
    by (auto simp: dispatch_def Let_def)
qed

lemma prepare_kind:
  assumes "prepare mode inp hl pt asc fmt = Inr p"
  shows "chosen_kind mode inp pt = Inr (p_plottype p)"
  using assms
  by (cases inp; cases pt)
    (auto simp: prepare_def chosen_kind_def squeezed_def Let_def split: sum.splits)

lemma prepare_sorted_copy:
  assumes "prepare mode inp hl pt (Some a) fmt = Inr p" and "is_series (squeezed mode inp)"
    and "p_plottype p \<notin> set unsorted_kinds"
  shows "p_binding p \<noteq> Caller"
proof -
  obtain dt rows where d: "deref inp (squeeze mode inp) = Series dt rows"
    using assms(2) by (cases "squeezed mode inp") (simp_all add: is_series_def squeezed_def)
  show ?thesis
    using assms(1,3) d
    by (cases inp; cases pt)
      (auto simp: prepare_def Let_def is_series_def split: sum.splits)
qed

text \<open>
  Claim C9 says that the caller's object is the same after every call, the waterfall
  kinds included. When the series is left unsorted (\<^verbatim>\<open>ascending=None\<close>) and \<^verbatim>\<open>squeeze\<close> hands
  back the object it was called on, \<^verbatim>\<open>plot_waterfall\<close> is given the caller's object, and
  the total written in line 82 is a row of the caller's series afterwards.
\<close>

theorem micompanyify_total_reaches_input:
  "fst (micompanyify SameObject 
          \<lparr> axes_after = (\<lambda>c. \<lparr> xlim = (0, 1), ylim = (0, 1) \<rparr>), py_format = example_format \<rparr>
          (Series False [(StrLabel ''a'', 1 / 4), (StrLabel ''b'', 3 / 4)])
          (Single (- 1)) (Some ''waterfall'') None None)
     = Series False [(StrLabel ''a'', 1 / 4), (StrLabel ''b'', 3 / 4), (StrLabel ''total'', 1)]"
  by (simp add: micompanyify_def prepare_def dispatch_def render_waterfall_def write_through_def
      squeeze_def deref_def define_colors_def setitem_def unsorted_kinds_def is_series_def
      all_percentages_def plot_waterfall_def loc_set_data_def loc_set_def Let_def
      split: sum.splits)

text \<open>
  Claim C9, amended. Whatever \<^verbatim>\<open>squeeze\<close> hands back: the caller's object is unchanged
  after the call, also when the call raises, for every kind other than \<open>waterfall\<close> and
  \<open>waterfall_buildup\<close>, and for these two kinds when the squeezed input is a series and
  a sort direction is given, since the total is then written into the sorted copy.
\<close>

theorem micompanyify_keeps_input:
  assumes "chosen_kind mode inp pt \<notin> {Inr ''waterfall'', Inr ''waterfall_buildup''} \<or>
           (asc \<noteq> None \<and> is_series (squeezed mode inp))"
  shows "fst (micompanyify mode env inp hl pt asc fmt) = inp"
proof (cases "prepare mode inp hl pt asc fmt")
  case (Inl e)
  then show ?thesis by (simp add: micompanyify_def)
next
  case (Inr p)
  have "p_plottype p \<notin> {''waterfall'', ''waterfall_buildup''} \<or> p_binding p \<noteq> Caller"
  proof (cases "p_plottype p \<in> {''waterfall'', ''waterfall_buildup''}")
    case True
    with prepare_kind [OF Inr] assms obtain a where a: "asc = Some a" and s: "is_series (squeezed mode inp)"
      by auto
    from True have "p_plottype p \<notin> set unsorted_kinds"
      by (auto simp: unsorted_kinds_def)
    with prepare_sorted_copy [OF Inr [unfolded a] s] show ?thesis by simp
  qed simp
  from dispatch_keeps_caller [OF this, of env hl inp]
  obtain r where "dispatch env hl inp p = (inp, r)"
    by (cases "dispatch env hl inp p") simp
  with Inr show ?thesis
    by (cases r) (auto simp: micompanyify_def)
qed

text \<open>
  C9 at a waterfall of the series \<open>a = 1/4, b = 3/4\<close>, sorted ascending.
\<close>

theorem micompanyify_keeps_input_witness:
  "Some True \<noteq> (None :: bool option) \<and>
   is_series (squeezed SameObject (Series False [(StrLabel ''a'', 1 / 4), (StrLabel ''b'', 3 / 4)])) \<and>
   fst (micompanyify SameObject 
          \<lparr> axes_after = (\<lambda>c. \<lparr> xlim = (0, 1), ylim = (0, 1) \<rparr>), py_format = example_format \<rparr>
          (Series False [(StrLabel ''a'', 1 / 4), (StrLabel ''b'', 3 / 4)])
          (Single (- 1)) (Some ''waterfall'') (Some True) None)
     = Series False [(StrLabel ''a'', 1 / 4), (StrLabel ''b'', 3 / 4)]"
proof -
  have h: "is_series (squeezed SameObject (Series False [(StrLabel ''a'', 1 / 4), (StrLabel ''b'', 3 / 4)]))"
    by (simp add: is_series_def squeezed_def squeeze_def deref_def)
  then show ?thesis
    using micompanyify_keeps_input [of SameObject
        "Series False [(StrLabel ''a'', 1 / 4), (StrLabel ''b'', 3 / 4)]" "Some ''waterfall''"
        "Some True" "\<lparr> axes_after = (\<lambda>c. \<lparr> xlim = (0, 1), ylim = (0, 1) \<rparr>), py_format = example_format \<rparr>" "Single (- 1)" None]
    by simp
qed

lemma dispatch_result_binding:
  "snd (dispatch env hl inp p) = snd (dispatch env hl inp' (p\<lparr> p_binding := b \<rparr>))"
proof -
  have c: "render_composition env hl (p\<lparr> p_binding := b \<rparr>) = render_composition env hl p"
    by (simp add: render_composition_def Let_def cong: sum.case_cong highlight.case_cong)
  have w: "snd (render_waterfall env u inp' (p\<lparr> p_binding := b \<rparr>)) =
           snd (render_waterfall env u inp p)" for u
    by (simp add: render_waterfall_def Let_def split: sum.splits)
  show ?thesis
    by (simp add: dispatch_def Let_def c w)
qed

lemma micompanyify_drawn:
  "snd (micompanyify mode env inp hl pt asc fmt) =
     drawn env hl (map_sum id (\<lambda>p. p\<lparr> p_binding := Caller \<rparr>) (prepare mode inp hl pt asc fmt))"
proof (cases "prepare mode inp hl pt asc fmt")
  case (Inl e)
  then show ?thesis by (simp add: micompanyify_def drawn_def)
next
  case (Inr p)
  obtain inp' r where d: "dispatch env hl inp p = (inp', r)"
    by (cases "dispatch env hl inp p")
  then have "snd (dispatch env hl (Scalar 0) (p\<lparr> p_binding := Caller \<rparr>)) = r"
    using dispatch_result_binding [of env hl inp p "Scalar 0" Caller] by simp
  with Inr d show ?thesis
    by (cases r) (auto simp: micompanyify_def drawn_def)
qed

lemma prepare_single_column:
  assumes "length vs = length idx"
  shows "map_sum id (\<lambda>p. p\<lparr> p_binding := Caller \<rparr>)
           (prepare mode (DataFrame dt idx [(c, vs)]) hl pt asc fmt) =
         map_sum id (\<lambda>p. p\<lparr> p_binding := Caller \<rparr>)
           (prepare mode (Series dt (zip idx vs)) hl pt asc fmt)"
proof (cases "length idx = 1")
  case True
  with assms obtain l v where "idx = [l]" "vs = [v]"
    by (cases idx; cases vs) auto
  then show ?thesis
    by (cases pt) (simp_all add: prepare_def squeeze_def deref_def Let_def pick_plottype_def
        define_colors_def)
next
  case False
  with assms show ?thesis
    by (cases pt; cases asc; cases mode)
      (simp_all add: prepare_def squeeze_def deref_def Let_def is_series_def split: sum.splits)
qed

text \<open>
  Claim C10. For every table with exactly one column, \<^verbatim>\<open>micompanyify\<close> raises the same
  error or makes the same drawing as for that column passed as a series: line 189
  squeezes the table before the kind, the colors, the sort and the labels are worked
  out.
\<close>

theorem single_column_table_as_series:
  assumes "length vs = length idx"
  shows "snd (micompanyify mode env (DataFrame dt idx [(c, vs)]) hl pt asc fmt) =
         snd (micompanyify mode env (Series dt (zip idx vs)) hl pt asc fmt)"
  by (simp only: micompanyify_drawn prepare_single_column [OF assms])

text \<open>
  C10 at a table of two rows and the one column \<open>x\<close>: a waterfall of the sorted
  column, with one color for each category and the gray of the total.
\<close>

theorem single_column_table_as_series_witness:
  "length [1 / 4, 3 / 4 :: real] = length [IntLabel 0, IntLabel 1] \<and>
   snd (micompanyify NewObject 
          \<lparr> axes_after = (\<lambda>c. \<lparr> xlim = (0, 1), ylim = (0, 1) \<rparr>), py_format = example_format \<rparr>
          (DataFrame False [IntLabel 0, IntLabel 1] [(StrLabel ''x'', [1 / 4, 3 / 4])])
          (Single (- 1)) None (Some True) None) =
   snd (micompanyify NewObject 
          \<lparr> axes_after = (\<lambda>c. \<lparr> xlim = (0, 1), ylim = (0, 1) \<rparr>), py_format = example_format \<rparr>
          (Series False [(IntLabel 0, 1 / 4), (IntLabel 1, 3 / 4)])
          (Single (- 1)) None (Some True) None) \<and>
   map_sum id o_plot
     (snd (micompanyify NewObject 
          \<lparr> axes_after = (\<lambda>c. \<lparr> xlim = (0, 1), ylim = (0, 1) \<rparr>), py_format = example_format \<rparr>
          (DataFrame False [IntLabel 0, IntLabel 1] [(StrLabel ''x'', [1 / 4, 3 / 4])])
          (Single (- 1)) None (Some True) None)) =
     Inr (Plot ''barh''
            (Series False [(IntLabel 0, 1 / 4), (IntLabel 1, 3 / 4), (StrLabel ''total'', 1)]) True
            (Some (Series False [(IntLabel 0, 0), (IntLabel 1, 1 / 4), (StrLabel ''total'', 0)]))
            [''lightgray'', ''purple'', ''gray''])"
proof -
  have h: "length [1 / 4, 3 / 4 :: real] = length [IntLabel 0, IntLabel 1]"
    by simp
  have e: "map_sum id o_plot
     (snd (micompanyify NewObject 
          \<lparr> axes_after = (\<lambda>c. \<lparr> xlim = (0, 1), ylim = (0, 1) \<rparr>), py_format = example_format \<rparr>
          (Series False [(IntLabel 0, 1 / 4), (IntLabel 1, 3 / 4)])
          (Single (- 1)) None (Some True) None)) =
     Inr (Plot ''barh''
            (Series False [(IntLabel 0, 1 / 4), (IntLabel 1, 3 / 4), (StrLabel ''total'', 1)]) True
            (Some (Series False [(IntLabel 0, 0), (IntLabel 1, 1 / 4), (StrLabel ''total'', 0)]))
            [''lightgray'', ''purple'', ''gray''])"
    by (simp add: micompanyify_def prepare_def dispatch_def render_waterfall_def
        squeeze_def deref_def define_colors_def setitem_def unsorted_kinds_def is_series_def
        all_percentages_def plot_waterfall_def loc_set_data_def loc_set_def blank_of_def
        pick_plottype_def is_percentage_series_def isclose_def between_def sort_values_def
        fillna_def shift_def cumsum_def combine_def plot_values_above_bar_def
        slot_coordinate_def write_through_def example_format_def HIGHLIGHT_COLOR_def Let_def)
  from single_column_table_as_series [OF h, of NewObject
      "\<lparr> axes_after = (\<lambda>c. \<lparr> xlim = (0, 1), ylim = (0, 1) \<rparr>), py_format = example_format \<rparr>" False "StrLabel ''x''" "Single (- 1)" None
      "Some True" None] e h
  show ?thesis by simp
qed

end
